theory Spec2Isabelle
  imports Complex_Main "HOL-Library.AList"
begin

section \<open>JavaScript values used by the shipping-label selectors\<close>

text \<open>
  The selectors of the shipping-label form (\<^verbatim>\<open>getRawAddressErrors\<close>,
  \<^verbatim>\<open>getAddressErrors\<close>, \<^verbatim>\<open>getCustomsErrors\<close>, \<^verbatim>\<open>getRatesErrors\<close>,
  \<^verbatim>\<open>getFirstErroneousStep\<close>, \<^verbatim>\<open>isCustomsFormRequired\<close>,
  \<^verbatim>\<open>getTotalPriceBreakdown\<close>) are pure functions over plain JavaScript objects.

  \<^item> A plain object is an association list from property keys to values, read with
    \<open>map_of\<close>; \<^verbatim>\<open>o[k] = v\<close> is \<open>AList.update\<close> (the key keeps its place, a
    new key goes to the end), \<^verbatim>\<open>delete o[k]\<close> is \<open>AList.delete\<close> and
    \<^verbatim>\<open>Object.keys(o)\<close> is \<open>map fst\<close>.
  \<^item> A property that may be \<^verbatim>\<open>undefined\<close> is an \<open>option\<close>.
  \<^item> A number is a rational; \<open>None\<close> of type \<open>number\<close> is \<^verbatim>\<open>NaN\<close> (or any
    value that is not a finite number). Binary floating-point rounding is not part of the
    model: sums and products are exact.
  \<^item> \<^verbatim>\<open>translate\<close> is the identity on the English text, with the arguments
    substituted.
  \<^item> A \<^verbatim>\<open>TypeError\<close> thrown by reading a property of \<^verbatim>\<open>undefined\<close> is the
    value \<open>Inl TypeError\<close>.
  \<^item> \<^verbatim>\<open>createSelector\<close> caches the result of a pure function and is left out.
  \<^item> A string is a list of bytes. The lengths that the selectors compare (a tariff number
    of 6 characters, a description of 3) agree with JavaScript's on ASCII text.
\<close>

type_synonym 'v obj = "(string \<times> 'v) list"

type_synonym number = "rat option"


definition truthy :: "string option \<Rightarrow> bool" where
  "truthy s = (case s of None \<Rightarrow> False | Some v \<Rightarrow> v \<noteq> [])"

definition js_includes :: "string list \<Rightarrow> string option \<Rightarrow> bool" where
  "js_includes xs v = (case v of None \<Rightarrow> False | Some s \<Rightarrow> s \<in> set xs)"

definition digit :: "char \<Rightarrow> bool" where
  "digit c = (c \<in> set ''0123456789'')"



text \<open>The trees handed to \<^verbatim>\<open>hasNonEmptyLeaves\<close>.\<close>

datatype tree = Undefined | Leaf string | Arr "tree list" | Obj "tree obj"

text \<open>Modelled from the spec: \<^verbatim>\<open>hasNonEmptyLeaves\<close> of \<^verbatim>\<open>lib/utils/tree\<close>, which is
  imported by the selectors and whose source is not part of the files at hand. The
  specification calls it the test that an error map "has any non-empty leaf". The
  selectors below take the function as a parameter; this definition is the instance used
  in the examples.\<close>

fun hasNonEmptyLeaves_spec :: "tree \<Rightarrow> bool" where
  "hasNonEmptyLeaves_spec Undefined = False"
| "hasNonEmptyLeaves_spec (Leaf s) = (s \<noteq> [])"
| "hasNonEmptyLeaves_spec (Arr ts) = (\<exists>t \<in> set ts. hasNonEmptyLeaves_spec t)"
| "hasNonEmptyLeaves_spec (Obj kts) = (\<exists>t \<in> set (map snd kts). hasNonEmptyLeaves_spec t)"




section \<open>The form state\<close>

record address =
  addr_values :: "string obj"
  isNormalized :: bool
  isUnverifiable :: bool
  normalized :: "string obj option"
  ignoreValidation :: "bool obj option"
  fieldErrors :: "string obj option"

text \<open>\<^verbatim>\<open>fieldsToValidate\<close>: the two flags are only ever compared with
  \<^verbatim>\<open>true === flag\<close>, so a missing flag is \<open>False\<close>.\<close>

record fields_to_validate =
  originPhone :: bool
  destinationPhone :: bool

text \<open>The imports of the selector module that are not among the source files: the
  constants of \<^verbatim>\<open>./constants\<close>, the location selectors \<^verbatim>\<open>hasStates\<close> and
  \<^verbatim>\<open>getCountryName\<close> (at the given state and site), \<^verbatim>\<open>getAddressValues\<close> and
  \<^verbatim>\<open>hasNonEmptyLeaves\<close>. They are parameters of every selector that uses them.\<close>

record module_imports =
  ACCEPTED_USPS_ORIGIN_COUNTRIES :: "string list"
  US_MILITARY_STATES :: "string list"
  USPS_ITN_REQUIRED_DESTINATIONS :: "string list"
  hasStates :: "string option \<Rightarrow> bool"
  getCountryName :: "string option \<Rightarrow> string"
  getAddressValues :: "address \<Rightarrow> string obj"
  hasNonEmptyLeaves :: "tree \<Rightarrow> bool"

section \<open>Address validation\<close>

definition msg_required :: string where
  "msg_required = ''This field is required''"

definition msg_name_or_company :: string where
  "msg_name_or_company = ''Either Name or Company field is required''"

definition msg_postcode_format :: string where
  "msg_postcode_format = ''Invalid ZIP/Postal code format''"

definition msg_origin_phone_required :: string where
  "msg_origin_phone_required = ''An origin address phone number is required for this shipment.''"

definition msg_phone_format :: string where
  "msg_phone_format = ''Customs forms require a 10-digit phone number. ''
     @ ''Please edit your phone number so it has at most 10 digits.''"

definition msg_destination_phone_required :: string where
  "msg_destination_phone_required =
     ''A destination address phone number is required for this shipment.''"

definition msg_address_not_recognized :: string where
  "msg_address_not_recognized = ''This address is not recognized. Please try another.''"

text \<open>\<^verbatim>\<open>/^\d{5}(?:-\d{4})?$/.test( postcode )\<close>; an undefined postcode is tested as
  the text \<^verbatim>\<open>undefined\<close>, which does not match.\<close>

definition zip_format :: "string option \<Rightarrow> bool" where
  "zip_format postcode = (case postcode of None \<Rightarrow> False
     | Some p \<Rightarrow> (length p = 5 \<and> list_all digit p)
         \<or> (length p = 10 \<and> list_all digit (take 5 p) \<and> p ! 5 = CHR ''-''
             \<and> list_all digit (drop 6 p)))"

text \<open>\<^verbatim>\<open>phone.split( /\D+/g ).join( '' ).replace( /^1/, '' )\<close>: the digits of the
  phone number, without one leading 1.\<close>

definition strip_leading_1 :: "string \<Rightarrow> string" where
  "strip_leading_1 s = (case s of [] \<Rightarrow> [] | c # cs \<Rightarrow> if c = CHR ''1'' then cs else c # cs)"

definition phone_digits :: "string \<Rightarrow> string" where
  "phone_digits phone = strip_leading_1 (filter digit phone)"

definition requiredFields :: "string list" where
  "requiredFields = [''address'', ''city'', ''postcode'', ''country'']"

definition getRawAddressErrors :: "module_imports \<Rightarrow> address \<Rightarrow> fields_to_validate \<Rightarrow> string obj" where
  "getRawAddressErrors env addressData fieldsToValidate =
    (let vals = addr_values addressData;
         av = getAddressValues env addressData;
         name = map_of av ''name'';
         company = map_of av ''company'';
         phone = map_of av ''phone'';
         postcode = map_of av ''postcode'';
         state = map_of av ''state'';
         country = map_of av ''country'';
         errors = fold (\<lambda>field errors.
                    if \<not> truthy (map_of vals field)
                    then AList.update field msg_required errors else errors)
                  requiredFields [];
         errors = (if \<not> truthy name \<and> \<not> truthy company
                   then AList.update ''company'' msg_name_or_company
                          (AList.update ''name'' msg_name_or_company errors)
                   else errors);
         errors = (if js_includes (ACCEPTED_USPS_ORIGIN_COUNTRIES env) country
                      \<and> \<not> zip_format postcode
                   then AList.update ''postcode'' msg_postcode_format errors
                   else errors);
         errors = (if \<not> truthy state \<and> hasStates env country
                   then AList.update ''state'' msg_required errors
                   else errors);
         errors = (if originPhone fieldsToValidate
                   then (case phone of
                           None \<Rightarrow> AList.update ''phone'' msg_origin_phone_required errors
                         | Some p \<Rightarrow>
                             if p = [] then AList.update ''phone'' msg_origin_phone_required errors
                             else if 10 \<noteq> length (phone_digits p)
                             then AList.update ''phone'' msg_phone_format errors
                             else errors)
                   else errors);
         errors = (if destinationPhone fieldsToValidate \<and> \<not> truthy phone
                   then AList.update ''phone'' msg_destination_phone_required errors
                   else errors)
     in errors)"

definition getAddressErrors :: "address \<Rightarrow> module_imports \<Rightarrow> fields_to_validate \<Rightarrow> string obj" where
  "getAddressErrors addressData env fieldsToValidate =
    (case (if (isNormalized addressData \<or> isUnverifiable addressData)
              \<and> normalized addressData = None
           then fieldErrors addressData else None) of
       Some fe \<Rightarrow> fe
     | None \<Rightarrow>
         if isNormalized addressData \<and> normalized addressData = None
         then [(''address'', msg_address_not_recognized)]
         else
           (let errors = getRawAddressErrors env addressData fieldsToValidate
            in case ignoreValidation addressData of
                 None \<Rightarrow> errors
               | Some iv \<Rightarrow>
                   fold (\<lambda>field errors.
                           if map_of iv field = Some True
                           then AList.delete field errors else errors)
                        (map fst errors) errors))"

section \<open>Packages\<close>

text \<open>An item of a package. The product id is used as a property key of
  \<^verbatim>\<open>customs.items\<close> and of the two tables of values, so it is the text of the key.
  The selectors do not read the \<^verbatim>\<open>name\<close> of an item.\<close>

record package_item =
  product_id :: string
  quantity :: rat

text \<open>The field \<open>length_dim\<close> is \<^verbatim>\<open>length\<close> in the source. A dimension that is not a
  finite number (\<^verbatim>\<open>isFinite\<close> of lodash is false) is \<open>None\<close>.\<close>

record package =
  box_id :: string
  items :: "package_item list"
  weight :: number
  length_dim :: number
  width :: number
  height :: number
  contentsType :: "string option"
  contentsExplanation :: "string option"
  restrictionType :: "string option"
  restrictionComments :: "string option"
  itn :: "string option"




section \<open>Customs\<close>

text \<open>A customs line of a product. \<open>item_weight\<close> and \<open>item_value\<close> are \<^verbatim>\<open>weight\<close> and
  \<^verbatim>\<open>value\<close> in the source: the content of a numeric form field, which is a number
  or empty. \<open>None\<close> is the empty field (\<^verbatim>\<open>''\<close> or \<^verbatim>\<open>null\<close>), which
  \<^verbatim>\<open>isNil( v ) || '' === v\<close> detects and which multiplication reads as 0
  (\<open>to_number\<close>). In the record \<open>customs\<close>, \<open>customs_items\<close> is \<^verbatim>\<open>items\<close>.\<close>

record customs_item =
  description :: "string option"
  item_weight :: "rat option"
  item_value :: "rat option"
  tariffNumber :: "string option"

record customs =
  customs_items :: "customs_item obj"
  ignoreWeightValidation :: "bool obj"
  ignoreValueValidation :: "bool obj"
































section \<open>Rates\<close>

record service_rate =
  service_id :: string
  rate :: rat
  retail_rate :: rat
  title :: string
  carrier_id :: "string option"

record rate_error =
  userMessage :: "string option"
  message :: "string option"

text \<open>The quotes of one package, \<^verbatim>\<open>{ default: { rates, errors }, <signature level>:
  { rates } }\<close>: \<open>default_rates\<close> is the property \<^verbatim>\<open>default\<close>, \<open>signature_rates\<close>
  holds the other properties. A missing \<^verbatim>\<open>errors\<close> list is the empty list (both are
  empty for \<^verbatim>\<open>isEmpty\<close>).\<close>

record default_quote =
  rates :: "service_rate list"
  errors :: "rate_error list"

record package_rates =
  default_rates :: default_quote
  signature_rates :: "service_rate list obj"

record selected_rate =
  serviceId :: "string option"
  signatureRequired :: "string option"

text \<open>\<open>rate_values\<close> is \<^verbatim>\<open>values\<close> in the source.\<close>

record rate_selection =
  rate_values :: "selected_rate obj"
  available :: "package_rates obj"

definition msg_no_rate :: string where
  "msg_no_rate = ''We couldn't get a rate for this package, please try again.''"

definition msg_no_rates_available :: string where
  "msg_no_rates_available =
     ''No rates available, please double check dimensions and weight or try using different packaging.''"

definition msg_choose_rate :: string where
  "msg_choose_rate = ''Please choose a rate''"

text \<open>\<^verbatim>\<open>err.userMessage || err.message\<close>, and \<^verbatim>\<open>Boolean\<close> of it.\<close>

definition errorMessage :: "rate_error \<Rightarrow> string option" where
  "errorMessage err = (if truthy (userMessage err) then userMessage err else message err)"

definition rateErrors :: "selected_rate obj \<Rightarrow> string \<Rightarrow> package_rates \<Rightarrow> string list" where
  "rateErrors selectedRates boxId r =
    (if errors (default_rates r) \<noteq> []
     then (let messages = concat (map (\<lambda>err. case errorMessage err of
                                                None \<Rightarrow> []
                                              | Some m \<Rightarrow> if m = [] then [] else [m])
                                      (errors (default_rates r)))
           in if length messages \<noteq> 0 then messages else [msg_no_rate])
     else if (case map_of selectedRates boxId of
                None \<Rightarrow> False
              | Some sel \<Rightarrow> truthy (serviceId sel))
     then []
     else if rates (default_rates r) = []
     then [msg_no_rates_available]
     else [msg_choose_rate])"

definition getRatesErrors :: "rate_selection \<Rightarrow> string list obj" where
  "getRatesErrors rs =
     map (\<lambda>(boxId, r). (boxId, rateErrors (rate_values rs) boxId r)) (available rs)"


section \<open>The form and its steps\<close>

text \<open>\<open>selected\<close> is \<^verbatim>\<open>form.packages.selected\<close>; \<open>form_customs\<close> and \<open>form_rates\<close>
  are \<^verbatim>\<open>form.customs\<close> and \<^verbatim>\<open>form.rates\<close>.\<close>

record form =
  origin :: address
  destination :: address
  selected :: "package obj"
  form_customs :: customs
  form_rates :: rate_selection

text \<open>The value of \<^verbatim>\<open>getShippingLabel( state, orderId, siteId )\<close>: \<open>None\<close> when the
  state has no label data for the order, otherwise the record below. \<open>label_form\<close> is
  its property \<^verbatim>\<open>form\<close>. Every selector takes this value in place of the global state.\<close>

record shippingLabel =
  loaded :: bool
  label_form :: "form option"
  paperSize :: "string option"

definition getForm :: "shippingLabel option \<Rightarrow> form option" where
  "getForm sl = (case sl of None \<Rightarrow> None | Some l \<Rightarrow> label_form l)"


definition isCustomsFormRequired :: "module_imports \<Rightarrow> shippingLabel option \<Rightarrow> bool" where
  "isCustomsFormRequired env sl =
    (case getForm sl of
       None \<Rightarrow> False
     | Some f \<Rightarrow>
         (let origin' = getAddressValues env (origin f) in
          if Some ''US'' = map_of origin' ''country''
             \<and> js_includes (US_MILITARY_STATES env) (map_of origin' ''state'')
          then True
          else (let destination' = getAddressValues env (destination f) in
                if Some ''US'' = map_of destination' ''country''
                   \<and> js_includes (US_MILITARY_STATES env) (map_of destination' ''state'')
                then True
                else map_of origin' ''country'' \<noteq> map_of destination' ''country'')))"












section \<open>Price breakdown\<close>













section \<open>The claims' own wording, for comparison with the code\<close>














text \<open>The messages of a package's provider errors as the specification words them: each
  error's user-facing message, or else its raw message, with the blanks removed.\<close>

definition renderedMessages :: "rate_error list \<Rightarrow> string list" where
  "renderedMessages errs =
     filter (\<lambda>m. m \<noteq> [])
       (map (\<lambda>err. case (if truthy (userMessage err) then userMessage err else message err) of
                     None \<Rightarrow> [] | Some m \<Rightarrow> m) errs)"






text \<open>An address is military, in the words of the specification: its country is
  \<^verbatim>\<open>"US"\<close> and its state is in the military-state list.\<close>

definition isMilitary :: "module_imports \<Rightarrow> address \<Rightarrow> bool" where
  "isMilitary env a =
     (map_of (getAddressValues env a) ''country'' = Some ''US''
      \<and> (\<exists>st \<in> set (US_MILITARY_STATES env). map_of (getAddressValues env a) ''state'' = Some st))"

definition countryOf :: "module_imports \<Rightarrow> address \<Rightarrow> string option" where
  "countryOf env a = map_of (getAddressValues env a) ''country''"

definition serviceSelected :: "rate_selection \<Rightarrow> string \<Rightarrow> bool" where
  "serviceSelected rs boxId =
     (case map_of (rate_values rs) boxId of None \<Rightarrow> False | Some sel \<Rightarrow> truthy (serviceId sel))"

section \<open>Example states\<close>

text \<open>An instance of the imports: three military state codes, United States territories
  as accepted origins, and \<^verbatim>\<open>getAddressValues\<close> reading the entered values.\<close>

definition example_imports :: module_imports where
  "example_imports =
     \<lparr>ACCEPTED_USPS_ORIGIN_COUNTRIES = [''US'', ''PR'', ''VI'', ''GU'', ''AS''],
      US_MILITARY_STATES = [''AA'', ''AE'', ''AP''],
      USPS_ITN_REQUIRED_DESTINATIONS = [''IR'', ''SY'', ''KP'', ''CU'', ''SD''],
      hasStates = (\<lambda>country. country = Some ''US''),
      getCountryName = (\<lambda>code. case code of None \<Rightarrow> [] | Some c \<Rightarrow> c),
      getAddressValues = addr_values,
      hasNonEmptyLeaves = hasNonEmptyLeaves_spec\<rparr>"

text \<open>A verified address in the given country and state.\<close>

definition example_values :: "string \<Rightarrow> string \<Rightarrow> string obj" where
  "example_values country state =
     [(''name'', ''Ann''), (''address'', ''1 Main St''), (''city'', ''Hagatna''),
      (''state'', state), (''postcode'', ''96910''), (''country'', country),
      (''phone'', ''6715550100'')]"

definition example_address :: "string \<Rightarrow> string \<Rightarrow> address" where
  "example_address country state =
     \<lparr>addr_values = example_values country state,
      isNormalized = True, isUnverifiable = False,
      normalized = Some (example_values country state),
      ignoreValidation = None, fieldErrors = None\<rparr>"

text \<open>An address that the server could not normalize, with a server-side error for a field
  that is marked as ignored.\<close>

definition example_unverified :: address where
  "example_unverified =
     \<lparr>addr_values = example_values ''US'' ''NY'',
      isNormalized = True, isUnverifiable = False,
      normalized = None,
      ignoreValidation = Some [(''address'', True)],
      fieldErrors = Some [(''address'', ''Street not found'')]\<rparr>"

text \<open>An address that is being edited: no state, no phone, and the state field marked as
  ignored.\<close>

definition example_editing :: address where
  "example_editing =
     \<lparr>addr_values = [(''name'', ''Ann''), (''address'', ''1 Main St''), (''city'', ''Albany''),
                     (''state'', []), (''postcode'', ''12207''), (''country'', ''US'')],
      isNormalized = False, isUnverifiable = False,
      normalized = None,
      ignoreValidation = Some [(''state'', True)],
      fieldErrors = None\<rparr>"

definition example_with_phone :: "string \<Rightarrow> address" where
  "example_with_phone phone =
     \<lparr>addr_values = [(''name'', ''Ann''), (''phone'', phone)],
      isNormalized = False, isUnverifiable = False,
      normalized = None, ignoreValidation = None, fieldErrors = None\<rparr>"

definition example_package :: "package_item list \<Rightarrow> package" where
  "example_package its =
     \<lparr>box_id = ''individual'', items = its,
      weight = Some 2, length_dim = Some 10, width = Some 8, height = Some 4,
      contentsType = Some ''merchandise'', contentsExplanation = None,
      restrictionType = Some ''none'', restrictionComments = None,
      itn = None\<rparr>"

definition example_line :: "rat \<Rightarrow> customs_item" where
  "example_line v =
     \<lparr>description = Some ''Shoes'', item_weight = Some 1, item_value = Some v,
      tariffNumber = Some ''123456''\<rparr>"





text \<open>The rate selection of the price example: one package with the USPS priority rate
  selected and no signature requirement.\<close>

definition example_rate :: service_rate where
  "example_rate =
     \<lparr>service_id = ''usps_priority'', rate = 5.95, retail_rate = 7.00,
      title = ''USPS - Priority Mail'', carrier_id = None\<rparr>"

definition example_rates :: rate_selection where
  "example_rates =
     \<lparr>rate_values = [(''p1'', \<lparr>serviceId = Some ''usps_priority'', signatureRequired = None\<rparr>)],
      available = [(''p1'', \<lparr>default_rates = \<lparr>rates = [example_rate], errors = []\<rparr>,
                             signature_rates = []\<rparr>)]\<rparr>"

text \<open>Quotes of four packages: provider errors with a message, provider errors without any
  text, a selected service, and neither.\<close>

definition example_quotes :: rate_selection where
  "example_quotes =
     \<lparr>rate_values = [(''c'', \<lparr>serviceId = Some ''usps_priority'', signatureRequired = None\<rparr>)],
      available =
        [(''a'', \<lparr>default_rates =
                   \<lparr>rates = [],
                    errors = [\<lparr>userMessage = None, message = Some ''Too heavy''\<rparr>,
                              \<lparr>userMessage = Some [], message = None\<rparr>]\<rparr>,
                  signature_rates = []\<rparr>),
         (''b'', \<lparr>default_rates =
                   \<lparr>rates = [], errors = [\<lparr>userMessage = None, message = None\<rparr>]\<rparr>,
                  signature_rates = []\<rparr>),
         (''c'', \<lparr>default_rates = \<lparr>rates = [example_rate], errors = []\<rparr>,
                  signature_rates = []\<rparr>),
         (''d'', \<lparr>default_rates = \<lparr>rates = [], errors = []\<rparr>, signature_rates = []\<rparr>),
         (''e'', \<lparr>default_rates = \<lparr>rates = [example_rate], errors = []\<rparr>,
                  signature_rates = []\<rparr>)]\<rparr>"

text \<open>A loaded label with a form from the given origin to the given destination, with
  one package holding one product worth 20 whose customs line carries the given marks for
  ignoring weight validation.\<close>

definition example_form :: "address \<Rightarrow> address \<Rightarrow> package \<Rightarrow> bool obj \<Rightarrow> form" where
  "example_form from to pckg marks =
     \<lparr>origin = from, destination = to,
      selected = [(''p1'', pckg)],
      form_customs = \<lparr>customs_items = [(''1'', example_line 20)],
                      ignoreWeightValidation = marks, ignoreValueValidation = []\<rparr>,
      form_rates = example_rates\<rparr>"

definition example_label :: "form \<Rightarrow> shippingLabel" where
  "example_label f = \<lparr>loaded = True, label_form = Some f, paperSize = Some ''letter''\<rparr>"

text \<open>A shipment from New York to Great Britain whose only product has a tariff number and
  is marked as ignoring weight validation.\<close>

definition example_marked :: shippingLabel where
  "example_marked =
     example_label (example_form (example_address ''US'' ''NY'') (example_address ''GB'' [])
       (example_package [\<lparr>product_id = ''1'', quantity = 1\<rparr>]) [(''1'', True)])"


text \<open>A shipment inside Guam.\<close>

definition example_guam :: shippingLabel where
  "example_guam =
     example_label (example_form (example_address ''GU'' []) (example_address ''GU'' [])
       (example_package [\<lparr>product_id = ''1'', quantity = 1\<rparr>]) [])"

section \<open>Address validation: proofs\<close>

lemma map_of_required_fold:
  "k \<notin> set fs \<Longrightarrow> map_of (fold (\<lambda>field errors.
                    if \<not> truthy (map_of vals field)
                    then AList.update field msg_required errors else errors) fs e) k = map_of e k"
  by (induction fs arbitrary: e) (auto simp: update_conv)

lemma map_of_ignore_fold:
  "map_of (fold (\<lambda>field errors. if map_of iv field = Some True
                           then AList.delete field errors else errors) ks e) k
   = (if k \<in> set ks \<and> map_of iv k = Some True then None else map_of e k)"
  by (induction ks arbitrary: e) (auto simp: delete_conv)

lemma phone_messages_distinct:
  "msg_phone_format \<noteq> msg_origin_phone_required"
  "msg_phone_format \<noteq> msg_destination_phone_required"
  "msg_origin_phone_required \<noteq> msg_destination_phone_required"
  by (simp_all add: msg_phone_format_def msg_origin_phone_required_def
        msg_destination_phone_required_def)

lemma map_of_cond_update:
  "map_of (if c then AList.update k v e else e) k' = (if c \<and> k' = k then Some v else map_of e k')"
  by (simp add: update_conv)

lemma map_of_cond_update2:
  "map_of (if c then AList.update k v (AList.update j w e) else e) k'
     = (if c \<and> k' = k then Some v else if c \<and> k' = j then Some w else map_of e k')"
  by (simp add: update_conv)

lemma map_of_phone_step:
  "map_of (if b then (case phone of None \<Rightarrow> AList.update k v e
                     | Some p \<Rightarrow> if p = [] then AList.update k v e
                                else if g p then AList.update k w e else e) else e) k'
   = (if b \<and> k' = k then (case phone of None \<Rightarrow> Some v
                     | Some p \<Rightarrow> if p = [] then Some v
                                else if g p then Some w else map_of e k) else map_of e k')"
  by (simp add: update_conv split: option.splits)

text \<open>The entry of the raw error report for the phone, and the one for the state.\<close>

lemma phone_entry:
  "map_of (getRawAddressErrors env a f) ''phone'' =
    (let phone = map_of (getAddressValues env a) ''phone'' in
     if destinationPhone f \<and> \<not> truthy phone then Some msg_destination_phone_required
     else if originPhone f then
       (case phone of None \<Rightarrow> Some msg_origin_phone_required
        | Some p \<Rightarrow> if p = [] then Some msg_origin_phone_required
                    else if 10 \<noteq> length (phone_digits p) then Some msg_phone_format else None)
     else None)"
  unfolding getRawAddressErrors_def Let_def
  apply (simp add: map_of_cond_update map_of_cond_update2 map_of_phone_step map_of_required_fold
        requiredFields_def split del: if_split cong: if_cong option.case_cong)
  apply (simp split: option.splits)
  done

lemma state_entry:
  "map_of (getRawAddressErrors env a f) ''state'' =
    (if \<not> truthy (map_of (getAddressValues env a) ''state'')
        \<and> hasStates env (map_of (getAddressValues env a) ''country'')
     then Some msg_required else None)"
  unfolding getRawAddressErrors_def Let_def
  apply (simp add: map_of_cond_update map_of_cond_update2 map_of_phone_step map_of_required_fold
        requiredFields_def split del: if_split cong: if_cong option.case_cong)
  apply (simp split: option.splits)
  done

text \<open>C1, as stated, fails: on the bypass path the server's field errors are returned as
  they are. Here the address is normalized without a normalized value, the server reports an
  error for the field \<open>address\<close>, the field is marked in \<open>ignoreValidation\<close>, and the
  error is still in the result.\<close>

theorem bypass_keeps_ignored_field:
  "isNormalized example_unverified
   \<and> normalized example_unverified = None
   \<and> fieldErrors example_unverified = Some [(''address'', ''Street not found'')]
   \<and> ignoreValidation example_unverified = Some [(''address'', True)]
   \<and> map_of (getAddressErrors example_unverified example_imports
               \<lparr>originPhone = False, destinationPhone = False\<rparr>) ''address''
       = Some ''Street not found''"
  by (simp add: example_unverified_def getAddressErrors_def)

text \<open>C1, amended: for every address record where \<open>isNormalized\<close> or \<open>isUnverifiable\<close>
  holds, no normalized value is present and a \<open>fieldErrors\<close> map is present,
  \<open>getAddressErrors\<close> returns that map unchanged; \<open>ignoreValidation\<close> is not consulted on
  this path.\<close>

theorem bypass_returns_fieldErrors:
  assumes "isNormalized a \<or> isUnverifiable a" "normalized a = None" "fieldErrors a = Some fe"
  shows "getAddressErrors a env f = fe"
  using assms by (auto simp: getAddressErrors_def)

theorem bypass_returns_fieldErrors_witness:
  "getAddressErrors example_unverified example_imports
     \<lparr>originPhone = True, destinationPhone = False\<rparr> = [(''address'', ''Street not found'')]"
proof -
  have 1: "isNormalized example_unverified \<or> isUnverifiable example_unverified"
    and 2: "normalized example_unverified = None"
    and 3: "fieldErrors example_unverified = Some [(''address'', ''Street not found'')]"
    by (simp_all add: example_unverified_def)
  show ?thesis by (rule bypass_returns_fieldErrors [OF 1 2 3])
qed

text \<open>C4, as stated, fails when both flags are set: with \<open>originPhone\<close> and
  \<open>destinationPhone\<close> both true and no phone, the destination message overwrites the
  origin message.\<close>

theorem both_phone_flags_destination_message:
  "map_of (getAddressValues example_imports example_editing) ''phone'' = None
   \<and> map_of (getRawAddressErrors example_imports example_editing
               \<lparr>originPhone = True, destinationPhone = True\<rparr>) ''phone''
       = Some msg_destination_phone_required
   \<and> msg_destination_phone_required \<noteq> msg_origin_phone_required"
  using phone_messages_distinct(3)
  by (simp add: phone_entry example_editing_def example_imports_def truthy_def)

text \<open>C4, amended: with \<open>originPhone\<close> true and \<open>destinationPhone\<close> not true, an empty
  phone gives the origin-phone-required error; with \<open>originPhone\<close> true and a phone that is
  not empty, the phone format error is present if and only if the digits of the phone,
  without one leading 1, are not exactly 10 (and otherwise there is no phone error); with
  \<open>destinationPhone\<close> true, an empty phone gives the destination-phone-required error; and
  without \<open>originPhone\<close> the format check does not run.\<close>

theorem getRawAddressErrors_phone:
  "(originPhone f \<and> \<not> destinationPhone f \<and> \<not> truthy (map_of (getAddressValues env a) ''phone'')
      \<longrightarrow> map_of (getRawAddressErrors env a f) ''phone'' = Some msg_origin_phone_required)
   \<and> (originPhone f \<and> map_of (getAddressValues env a) ''phone'' = Some p \<and> p \<noteq> []
      \<longrightarrow> (map_of (getRawAddressErrors env a f) ''phone'' = Some msg_phone_format
             \<longleftrightarrow> length (phone_digits p) \<noteq> 10)
        \<and> (map_of (getRawAddressErrors env a f) ''phone'' = None
             \<longleftrightarrow> length (phone_digits p) = 10))
   \<and> (destinationPhone f \<and> \<not> truthy (map_of (getAddressValues env a) ''phone'')
      \<longrightarrow> map_of (getRawAddressErrors env a f) ''phone'' = Some msg_destination_phone_required)
   \<and> (\<not> originPhone f
      \<longrightarrow> map_of (getRawAddressErrors env a f) ''phone'' \<noteq> Some msg_phone_format)"
  using phone_messages_distinct phone_messages_distinct [symmetric]
  by (auto simp: phone_entry Let_def truthy_def split: option.splits)

theorem getRawAddressErrors_phone_witness:
  "map_of (getRawAddressErrors example_imports example_editing
             \<lparr>originPhone = True, destinationPhone = False\<rparr>) ''phone''
     = Some msg_origin_phone_required
   \<and> map_of (getRawAddressErrors example_imports (example_with_phone ''+1 (671) 555-0100'')
             \<lparr>originPhone = True, destinationPhone = False\<rparr>) ''phone'' = None
   \<and> map_of (getRawAddressErrors example_imports (example_with_phone ''555-0100'')
             \<lparr>originPhone = True, destinationPhone = False\<rparr>) ''phone''
     = Some msg_phone_format
   \<and> map_of (getRawAddressErrors example_imports example_editing
             \<lparr>originPhone = False, destinationPhone = True\<rparr>) ''phone''
     = Some msg_destination_phone_required
   \<and> map_of (getRawAddressErrors example_imports (example_with_phone ''555-0100'')
             \<lparr>originPhone = False, destinationPhone = True\<rparr>) ''phone''
     \<noteq> Some msg_phone_format"
proof -
  have none: "\<not> truthy (map_of (getAddressValues example_imports example_editing) ''phone'')"
    by (simp add: example_imports_def example_editing_def truthy_def)
  have good: "map_of (getAddressValues example_imports (example_with_phone ''+1 (671) 555-0100''))
                ''phone'' = Some ''+1 (671) 555-0100''"
    and bad: "map_of (getAddressValues example_imports (example_with_phone ''555-0100''))
                ''phone'' = Some ''555-0100''"
    by (simp_all add: example_imports_def example_with_phone_def)
  have len_good: "length (phone_digits ''+1 (671) 555-0100'') = 10"
    and len_bad: "length (phone_digits ''555-0100'') \<noteq> 10"
    by (simp_all add: phone_digits_def strip_leading_1_def digit_def)
  show ?thesis
    using none good bad len_good len_bad
      getRawAddressErrors_phone [of "\<lparr>originPhone = True, destinationPhone = False\<rparr>"
        example_imports example_editing]
      getRawAddressErrors_phone [of "\<lparr>originPhone = True, destinationPhone = False\<rparr>"
        example_imports "example_with_phone ''+1 (671) 555-0100''" "''+1 (671) 555-0100''"]
      getRawAddressErrors_phone [of "\<lparr>originPhone = True, destinationPhone = False\<rparr>"
        example_imports "example_with_phone ''555-0100''" "''555-0100''"]
      getRawAddressErrors_phone [of "\<lparr>originPhone = False, destinationPhone = True\<rparr>"
        example_imports example_editing]
      getRawAddressErrors_phone [of "\<lparr>originPhone = False, destinationPhone = True\<rparr>"
        example_imports "example_with_phone ''555-0100''"]
    by simp
qed

text \<open>C9: for every address with \<open>isNormalized\<close> and \<open>isUnverifiable\<close> false whose
  country is known to have states and whose state is empty, the raw error report has the
  state-required error, and with \<open>ignoreValidation.state\<close> set the result of
  \<open>getAddressErrors\<close> has no entry for \<open>state\<close>.\<close>

theorem ignoreValidation_state:
  assumes "\<not> isNormalized a" "\<not> isUnverifiable a"
    and "hasStates env (map_of (getAddressValues env a) ''country'')"
    and "\<not> truthy (map_of (getAddressValues env a) ''state'')"
    and "ignoreValidation a = Some iv" "map_of iv ''state'' = Some True"
  shows "map_of (getRawAddressErrors env a f) ''state'' = Some msg_required
     \<and> map_of (getAddressErrors a env f) ''state'' = None
     \<and> ''state'' \<notin> set (map fst (getAddressErrors a env f))"
proof -
  have raw: "map_of (getRawAddressErrors env a f) ''state'' = Some msg_required"
    using assms by (simp add: state_entry)
  from raw have key: "''state'' \<in> fst ` set (getRawAddressErrors env a f)"
    by (metis map_of_eq_None_iff option.distinct(1))
  have none: "map_of (getAddressErrors a env f) ''state'' = None"
    using assms key by (simp add: getAddressErrors_def Let_def map_of_ignore_fold)
  from none have "''state'' \<notin> set (map fst (getAddressErrors a env f))"
    by (simp add: map_of_eq_None_iff)
  with raw none show ?thesis by simp
qed

theorem ignoreValidation_state_witness:
  "map_of (getRawAddressErrors example_imports example_editing
             \<lparr>originPhone = False, destinationPhone = False\<rparr>) ''state'' = Some msg_required
   \<and> map_of (getAddressErrors example_editing example_imports
             \<lparr>originPhone = False, destinationPhone = False\<rparr>) ''state'' = None
   \<and> ''state'' \<notin> set (map fst (getAddressErrors example_editing example_imports
             \<lparr>originPhone = False, destinationPhone = False\<rparr>))"
proof -
  have 1: "\<not> isNormalized example_editing" and 2: "\<not> isUnverifiable example_editing"
    and 3: "hasStates example_imports
              (map_of (getAddressValues example_imports example_editing) ''country'')"
    and 4: "\<not> truthy (map_of (getAddressValues example_imports example_editing) ''state'')"
    and 5: "ignoreValidation example_editing = Some [(''state'', True)]"
    and 6: "map_of [(''state'', True)] ''state'' = Some True"
    by (simp_all add: example_editing_def example_imports_def truthy_def)
  show ?thesis by (rule ignoreValidation_state [OF 1 2 3 4 5 6])
qed

section \<open>Customs requirement, rates and prices: proofs\<close>

text \<open>C6: \<open>isCustomsFormRequired\<close> is false without a form; with a form it is true if
  and only if the origin or the destination is a military address or the two countries
  differ, so every shipment inside one country between addresses that are not military needs
  no customs form, as the shipment from Guam to Guam.\<close>

theorem isCustomsFormRequired_iff:
  "(getForm sl = None \<longrightarrow> \<not> isCustomsFormRequired env sl)
   \<and> (getForm sl = Some f \<longrightarrow>
        (isCustomsFormRequired env sl \<longleftrightarrow>
           isMilitary env (origin f) \<or> isMilitary env (destination f)
           \<or> countryOf env (origin f) \<noteq> countryOf env (destination f)))
   \<and> (getForm sl = Some f \<and> \<not> isMilitary env (origin f) \<and> \<not> isMilitary env (destination f)
        \<and> countryOf env (origin f) = countryOf env (destination f)
        \<longrightarrow> \<not> isCustomsFormRequired env sl)"
  by (auto simp: isCustomsFormRequired_def isMilitary_def countryOf_def js_includes_def Let_def
           split: option.splits)

theorem isCustomsFormRequired_iff_witness:
  "\<not> isCustomsFormRequired example_imports (Some example_guam)
   \<and> isCustomsFormRequired example_imports (Some example_marked)
   \<and> \<not> isCustomsFormRequired example_imports None"
proof -
  let ?g = "example_form (example_address ''GU'' []) (example_address ''GU'' [])
              (example_package [\<lparr>product_id = ''1'', quantity = 1\<rparr>]) []"
  let ?m = "example_form (example_address ''US'' ''NY'') (example_address ''GB'' [])
              (example_package [\<lparr>product_id = ''1'', quantity = 1\<rparr>]) [(''1'', True)]"
  have g: "getForm (Some example_guam) = Some ?g"
    and m: "getForm (Some example_marked) = Some ?m"
    and n: "getForm None = (None :: form option)"
    by (simp_all add: getForm_def example_guam_def example_marked_def example_label_def)
  have g1: "\<not> isMilitary example_imports (origin ?g)"
    and g2: "\<not> isMilitary example_imports (destination ?g)"
    and g3: "countryOf example_imports (origin ?g) = countryOf example_imports (destination ?g)"
    and m3: "countryOf example_imports (origin ?m) \<noteq> countryOf example_imports (destination ?m)"
    by (simp_all add: isMilitary_def countryOf_def example_imports_def example_form_def
          example_address_def example_values_def)
  show ?thesis
    using g m n g1 g2 g3 m3
      isCustomsFormRequired_iff [of "Some example_guam" example_imports ?g]
      isCustomsFormRequired_iff [of "Some example_marked" example_imports ?m]
      isCustomsFormRequired_iff [of None example_imports]
    by simp
qed

lemma map_of_mapValues:
  "map_of (map (\<lambda>(k, v). (k, g k v)) xs) k = map_option (g k) (map_of xs k)"
  by (induction xs) auto

lemma renderedMessages_concat:
  "concat (map (\<lambda>err. case errorMessage err of None \<Rightarrow> [] | Some m \<Rightarrow> if m = [] then [] else [m])
             errs) = renderedMessages errs"
  by (induction errs) (auto simp: renderedMessages_def errorMessage_def split: option.splits)

text \<open>C7: \<open>getRatesErrors\<close> has one entry for every quoted package: when the default
  quote carries errors, their user-facing (or else raw) messages without the blank ones, or
  the single message that no rate could be got when all of them are blank; otherwise the
  empty list when a service is selected for the package; otherwise the message that no rates
  are available when the default rate list is empty; otherwise the request to choose a
  rate.\<close>

theorem getRatesErrors_cases:
  "map fst (getRatesErrors rs) = map fst (available rs)
   \<and> (map_of (available rs) boxId = Some r \<longrightarrow>
        map_of (getRatesErrors rs) boxId = Some
          (if errors (default_rates r) \<noteq> []
           then (if renderedMessages (errors (default_rates r)) \<noteq> []
                 then renderedMessages (errors (default_rates r)) else [msg_no_rate])
           else if serviceSelected rs boxId then []
           else if rates (default_rates r) = [] then [msg_no_rates_available]
           else [msg_choose_rate]))"
proof -
  have keys: "map fst (getRatesErrors rs) = map fst (available rs)"
    by (induction "available rs") (auto simp: getRatesErrors_def)
  have entry: "map_of (getRatesErrors rs) boxId
                 = map_option (rateErrors (rate_values rs) boxId) (map_of (available rs) boxId)"
    unfolding getRatesErrors_def by (rule map_of_mapValues)
  show ?thesis
    using keys
    by (simp add: entry rateErrors_def serviceSelected_def renderedMessages_concat Let_def)
qed

theorem getRatesErrors_cases_witness:
  "map_of (getRatesErrors example_quotes) ''a'' = Some [''Too heavy'']
   \<and> map_of (getRatesErrors example_quotes) ''b'' = Some [msg_no_rate]
   \<and> map_of (getRatesErrors example_quotes) ''c'' = Some []
   \<and> map_of (getRatesErrors example_quotes) ''d'' = Some [msg_no_rates_available]
   \<and> map_of (getRatesErrors example_quotes) ''e'' = Some [msg_choose_rate]"
proof -
  let ?a = "\<lparr>default_rates =
                   \<lparr>rates = [],
                    errors = [\<lparr>userMessage = None, message = Some ''Too heavy''\<rparr>,
                              \<lparr>userMessage = Some [], message = None\<rparr>]\<rparr>,
                  signature_rates = []\<rparr>"
  let ?b = "\<lparr>default_rates =
                   \<lparr>rates = [], errors = [\<lparr>userMessage = None, message = None\<rparr>]\<rparr>,
                  signature_rates = []\<rparr>"
  let ?c = "\<lparr>default_rates = \<lparr>rates = [example_rate], errors = []\<rparr>, signature_rates = []\<rparr>"
  let ?d = "\<lparr>default_rates = \<lparr>rates = [], errors = []\<rparr>, signature_rates = []\<rparr>"
  have a: "map_of (available example_quotes) ''a'' = Some ?a"
    and b: "map_of (available example_quotes) ''b'' = Some ?b"
    and c: "map_of (available example_quotes) ''c'' = Some ?c"
    and d: "map_of (available example_quotes) ''d'' = Some ?d"
    and e: "map_of (available example_quotes) ''e'' = Some ?c"
    by (simp_all add: example_quotes_def)
  have sel: "serviceSelected example_quotes ''c''" "\<not> serviceSelected example_quotes ''d''"
    "\<not> serviceSelected example_quotes ''e''"
    by (simp_all add: serviceSelected_def example_quotes_def truthy_def)
  have msgs: "renderedMessages (errors (default_rates ?a)) = [''Too heavy'']"
    "renderedMessages (errors (default_rates ?b)) = []"
    by (simp_all add: renderedMessages_def truthy_def)
  show ?thesis
    using a b c d e sel msgs
      getRatesErrors_cases [of example_quotes "''a''" ?a]
      getRatesErrors_cases [of example_quotes "''b''" ?b]
      getRatesErrors_cases [of example_quotes "''c''" ?c]
      getRatesErrors_cases [of example_quotes "''d''" ?d]
      getRatesErrors_cases [of example_quotes "''e''" ?c]
    by simp
qed





section \<open>Customs aggregation: proofs\<close>



































section \<open>The first erroneous step: proofs\<close>












end
